theory Spec2Isabelle
  imports Main "HOL-Library.Word" "HOL-Library.Signed_Division"
begin

section \<open>The traffic-light module \<^verbatim>\<open>mytraffic.c\<close>\<close>

text \<open>
  A shallow embedding of the controller part of the kernel module: the light state
  (\<^verbatim>\<open>struct traffic_light\<close>), its initialisation in \<^verbatim>\<open>mytraffic_init\<close>, the periodic
  \<^verbatim>\<open>timer_callback\<close>, the two debounced interrupt handlers and the character-device
  \<^verbatim>\<open>read\<close> and \<^verbatim>\<open>write\<close> operations.

  C's \<^verbatim>\<open>int\<close> and \<^verbatim>\<open>unsigned int\<close> are 32-bit words. The kernel is built with
  \<^verbatim>\<open>-fno-strict-overflow\<close>, so \<^verbatim>\<open>cycle_count++\<close> wraps around; \<^verbatim>\<open>%\<close> truncates towards
  zero (\<open>smod\<close> on the signed value). \<^verbatim>\<open>unsigned long\<close> (jiffies) is a word of any
  length \<open>'j\<close>.
\<close>

subsection \<open>Data model\<close>

datatype mode = NORMAL | FLASHING_RED | FLASHING_YELLOW

text \<open>
  \<^verbatim>\<open>struct traffic_light\<close>. The embedded \<^verbatim>\<open>struct timer_list\<close> is a kernel object that
  only the scheduler reads; it is left out.
\<close>

record traffic_light =
  current_mode :: mode
  cycle_count :: "32 word"
  ped_cycle_count :: "32 word"
  rate :: "32 word"
  red_active :: bool
  yellow_active :: bool
  green_active :: bool
  ped_requested :: bool
  ped_crossing :: bool
  irq_toggle :: "32 word"
  irq_ped :: "32 word"

text \<open>The GPIO pin numbers.\<close>

definition RED :: nat where "RED = 67"
definition YELLOW :: nat where "YELLOW = 68"
definition GREEN :: nat where "GREEN = 44"
definition TOGGLE_BTN :: nat where "TOGGLE_BTN = 26"
definition PED_BTN :: nat where "PED_BTN = 46"

text \<open>The error numbers the module returns (negated).\<close>

datatype errno = ENOMEM | EFAULT | EINVAL

fun errno_code :: "errno \<Rightarrow> int" where
  "errno_code ENOMEM = 12"
| "errno_code EFAULT = 14"
| "errno_code EINVAL = 22"

subsection \<open>Initialisation\<close>

text \<open>
  What the kernel answers to the calls of \<^verbatim>\<open>mytraffic_init\<close>: the result of
  \<^verbatim>\<open>register_chrdev\<close>, the object \<^verbatim>\<open>kmalloc\<close> returns (\<open>None\<close> for \<^verbatim>\<open>NULL\<close>; otherwise
  the contents of the allocated memory, which \<^verbatim>\<open>kmalloc\<close> does not clear), the result
  of \<^verbatim>\<open>gpio_request\<close> for each pin and the interrupt number \<^verbatim>\<open>gpio_to_irq\<close> gives for
  each pin.
\<close>

record kernel_env =
  register_chrdev_result :: int
  kmalloc_result :: "traffic_light option"
  gpio_request_result :: "nat \<Rightarrow> int"
  gpio_to_irq_result :: "nat \<Rightarrow> 32 word"

text \<open>
  \<^verbatim>\<open>mytraffic_init\<close>: \<open>Inl\<close> the return code of a failed initialisation, \<open>Inr\<close> the
  light state \<^verbatim>\<open>t_light\<close> of a successful one (return value 0). The assignments are in
  the order of the source; the results of \<^verbatim>\<open>request_irq\<close> are overwritten unread there,
  so they are no input here.
\<close>

definition mytraffic_init :: "kernel_env \<Rightarrow> int + traffic_light" where
  "mytraffic_init env =
    (if register_chrdev_result env < 0 then Inl (register_chrdev_result env)
     else case kmalloc_result env of
       None \<Rightarrow> Inl (- errno_code ENOMEM)
     | Some mem \<Rightarrow>
        (let l1 = mem\<lparr>cycle_count := 0, rate := 1, red_active := False,
                      yellow_active := False, green_active := True,
                      ped_requested := False, ped_crossing := False\<rparr>
         in if gpio_request_result env RED \<noteq> 0 then Inl (gpio_request_result env RED)
         else if gpio_request_result env YELLOW \<noteq> 0 then Inl (gpio_request_result env YELLOW)
         else if gpio_request_result env GREEN \<noteq> 0 then Inl (gpio_request_result env GREEN)
         else
          (let l2 = l1\<lparr>current_mode := NORMAL\<rparr>
           in if gpio_request_result env TOGGLE_BTN \<noteq> 0
              then Inl (gpio_request_result env TOGGLE_BTN)
              else
               (let l3 = l2\<lparr>irq_toggle := gpio_to_irq_result env TOGGLE_BTN\<rparr>
                in if gpio_request_result env PED_BTN \<noteq> 0
                   then Inl (gpio_request_result env PED_BTN)
                   else Inr (l3\<lparr>irq_ped := gpio_to_irq_result env PED_BTN\<rparr>)))))"

subsection \<open>The timer callback\<close>

text \<open>The three values handed to \<^verbatim>\<open>gpio_set_value\<close> for the pins RED, YELLOW, GREEN.\<close>

definition gpio_values :: "traffic_light \<Rightarrow> bool \<times> bool \<times> bool" where
  "gpio_values light = (red_active light, yellow_active light, green_active light)"

text \<open>\<^verbatim>\<open>cycle_count % 6\<close> on the signed value, as C computes it.\<close>

definition cycle_position :: "traffic_light \<Rightarrow> int" where
  "cycle_position light = sint (cycle_count light) smod 6"

text \<open>
  \<^verbatim>\<open>timer_callback\<close>: one tick. The first step is \<^verbatim>\<open>light->cycle_count++\<close>; the switch
  over the mode follows.
\<close>

definition timer_callback :: "traffic_light \<Rightarrow> traffic_light" where
  "timer_callback light0 =
    (let light = light0\<lparr>cycle_count := cycle_count light0 + 1\<rparr>
     in case current_mode light of
       NORMAL \<Rightarrow>
        (if ped_crossing light then
           (if sint (ped_cycle_count light) < 5
            then light\<lparr>red_active := True, yellow_active := True, green_active := False,
                       ped_cycle_count := ped_cycle_count light + 1\<rparr>
            else light\<lparr>ped_crossing := False, ped_requested := False,
                       ped_cycle_count := 0, cycle_count := 0,
                       red_active := False, yellow_active := False, green_active := True\<rparr>)
         else
           (if cycle_position light = 3
            then light\<lparr>red_active := False, yellow_active := True, green_active := False\<rparr>
            else if cycle_position light = 4 \<or> cycle_position light = 5
            then
              (let stop = light\<lparr>red_active := True, yellow_active := False,
                                 green_active := False\<rparr>
               in if ped_requested stop
                  then stop\<lparr>ped_crossing := True, ped_requested := False,
                            ped_cycle_count := 0, yellow_active := True\<rparr>
                  else stop)
            else light\<lparr>red_active := False, yellow_active := False, green_active := True\<rparr>))
     | FLASHING_RED \<Rightarrow>
         light\<lparr>red_active := (sint (cycle_count light) smod 2 = 1),
               yellow_active := False, green_active := False\<rparr>
     | FLASHING_YELLOW \<Rightarrow>
         light\<lparr>red_active := False,
               yellow_active := (sint (cycle_count light) smod 2 = 1),
               green_active := False\<rparr>)"

subsection \<open>The interrupt handlers\<close>

text \<open>
  The module's state: the light \<^verbatim>\<open>t_light\<close> and the two function-local statics
  \<^verbatim>\<open>most_recent_interrupt\<close> of the handlers (of the type \<open>'w\<close> of jiffies, a word),
  both 0 when the module is loaded.
\<close>

record 'w module_state =
  t_light :: traffic_light
  toggle_most_recent_interrupt :: 'w
  ped_most_recent_interrupt :: 'w

definition loaded :: "traffic_light \<Rightarrow> ('j::len) word module_state" where
  "loaded light =
     \<lparr>t_light = light, toggle_most_recent_interrupt = 0, ped_most_recent_interrupt = 0\<rparr>"

text \<open>
  \<^verbatim>\<open>toggle_interrupt_handler\<close>. \<open>window\<close> is \<^verbatim>\<open>msecs_to_jiffies(250)\<close>, which depends on
  the kernel's \<^verbatim>\<open>HZ\<close>; \<open>jiffies\<close> is the counter's value when the interrupt runs. The
  subtraction is the unsigned one of the source.
\<close>

definition toggle_interrupt_handler ::
  "'j word \<Rightarrow> 'j word \<Rightarrow> ('j::len) word module_state \<Rightarrow> 'j word module_state" where
  "toggle_interrupt_handler window jiffies st =
    (if jiffies - toggle_most_recent_interrupt st < window then st
     else
      (let light = t_light st;
           switched = (case current_mode light of
                         NORMAL \<Rightarrow> light\<lparr>current_mode := FLASHING_RED\<rparr>
                       | FLASHING_RED \<Rightarrow> light\<lparr>current_mode := FLASHING_YELLOW\<rparr>
                       | FLASHING_YELLOW \<Rightarrow> light\<lparr>current_mode := NORMAL\<rparr>)
       in st\<lparr>toggle_most_recent_interrupt := jiffies,
              t_light := switched\<lparr>cycle_count := 0\<rparr>\<rparr>))"

text \<open>\<^verbatim>\<open>ped_interrupt_handler\<close>, with its own static.\<close>

definition ped_interrupt_handler ::
  "'j word \<Rightarrow> 'j word \<Rightarrow> ('j::len) word module_state \<Rightarrow> 'j word module_state" where
  "ped_interrupt_handler window jiffies st =
    (if jiffies - ped_most_recent_interrupt st < window then st
     else
      (let light = t_light st
       in st\<lparr>ped_most_recent_interrupt := jiffies,
              t_light := (if current_mode light = NORMAL
                          then light\<lparr>ped_requested := True\<rparr> else light)\<rparr>))"

subsection \<open>The character device\<close>

text \<open>The decimal digits \<^verbatim>\<open>%u\<close> prints.\<close>

fun decimal :: "nat \<Rightarrow> string" where
  "decimal n =
     (if n < 10 then [char_of (48 + n)]
      else decimal (n div 10) @ [char_of (48 + n mod 10)])"

declare decimal.simps [simp del]

text \<open>
  One \<^verbatim>\<open>len += snprintf(kbuf + len, sizeof(kbuf) - len, ...)\<close> on the 256-byte buffer:
  \<open>kbuf\<close> is the text before the terminating NUL, \<open>s\<close> the formatted text. \<^verbatim>\<open>snprintf\<close>
  stores at most \<open>size - 1\<close> characters and returns the length of the whole of \<open>s\<close>.
  (With \<open>len > 256\<close> the size would wrap around; the report is at most 111 bytes long,
  see \<open>status_text_length\<close>, so that the case does not arise.)
\<close>

definition snprintf_at :: "string \<times> nat \<Rightarrow> string \<Rightarrow> string \<times> nat" where
  "snprintf_at b s =
     (case b of (kbuf, len) \<Rightarrow>
        (if len < 256 then kbuf @ take (255 - len) s else kbuf, len + length s))"

text \<open>The four \<^verbatim>\<open>snprintf\<close> calls of \<^verbatim>\<open>mytraffic_read\<close>: the buffer and \<^verbatim>\<open>len\<close>.\<close>

definition status_text :: "traffic_light \<Rightarrow> string \<times> nat" where
  "status_text light =
    (let b0 = ([], 0);
         b1 = snprintf_at b0
               (''Mode: '' @
                (if current_mode light = NORMAL then ''normal''
                 else if current_mode light = FLASHING_RED then ''flashing-red''
                 else ''flashing-yellow'') @ [CHR 0x0A]);
         b2 = snprintf_at b1
               (''Cycle Rate: '' @ decimal (unat (rate light)) @ '' Hz'' @ [CHR 0x0A]);
         b3 = snprintf_at b2
               (''Lights: red '' @ (if red_active light then ''on'' else ''off'') @
                '', yellow '' @ (if yellow_active light then ''on'' else ''off'') @
                '', green '' @ (if green_active light then ''on'' else ''off'') @ [CHR 0x0A]);
         b4 = snprintf_at b3
               (''Pedestrian: '' @
                (if ped_requested light \<or> ped_crossing light then ''present''
                 else ''not present'') @ [CHR 0x0A])
     in b4)"

text \<open>
  \<^verbatim>\<open>mytraffic_read\<close>. \<open>ubuf\<close> is the number of bytes the user buffer can take
  (\<^verbatim>\<open>copy_to_user\<close> fails beyond it), \<open>f_pos\<close> the file offset, which the VFS keeps
  non-negative. The result is the return value, the bytes copied to the user and the new
  offset; the light is only read.
\<close>

definition mytraffic_read ::
  "traffic_light \<Rightarrow> nat \<Rightarrow> nat \<Rightarrow> nat \<Rightarrow> errno + (nat \<times> string \<times> nat)" where
  "mytraffic_read light ubuf count f_pos =
    (case status_text light of (kbuf, len) \<Rightarrow>
       if f_pos \<ge> len then Inr (0, [], f_pos)
       else
        (let count' = (if count > len - f_pos then len - f_pos else count)
         in if count' > ubuf then Inl EFAULT
            else Inr (count', take count' (drop f_pos kbuf), f_pos + count')))"

text \<open>The C string in a buffer: the bytes before the first NUL.\<close>

definition c_string :: "string \<Rightarrow> string" where
  "c_string bytes = takeWhile (\<lambda>c. c \<noteq> CHR 0x00) bytes"

text \<open>
  \<^verbatim>\<open>mytraffic_write\<close>. \<open>buf\<close> holds the bytes readable at the user pointer
  (\<^verbatim>\<open>copy_from_user\<close> fails when there are fewer than \<open>count\<close>). The kernel's \<^verbatim>\<open>sscanf\<close> is
  not part of the module: \<open>scan\<close> stands for \<^verbatim>\<open>sscanf(kbuf, "%u", &new_rate)\<close>, \<open>Some v\<close>
  when it returns 1 and stores \<open>v\<close>, \<open>None\<close> otherwise. The result is the return value
  (\<open>Inl e\<close> for \<open>-e\<close>) and the light.
\<close>

definition mytraffic_write ::
  "(string \<Rightarrow> 32 word option) \<Rightarrow> traffic_light \<Rightarrow> string \<Rightarrow> nat
     \<Rightarrow> (errno + nat) \<times> traffic_light" where
  "mytraffic_write scan light buf count =
    (if count \<ge> 16 then (Inl EINVAL, light)
     else if length buf < count then (Inl EFAULT, light)
     else
      (let kbuf = take count buf @ [CHR 0x00]
       in case scan (c_string kbuf) of
            Some new_rate \<Rightarrow>
              (if new_rate \<ge> 1 \<and> new_rate \<le> 9
               then (Inr count, light\<lparr>rate := new_rate\<rparr>)
               else (Inr count, light))
          | None \<Rightarrow> (Inr count, light)))"

text \<open>
  The kernel's \<^verbatim>\<open>sscanf\<close> for the format \<^verbatim>\<open>"%u"\<close> (\<^verbatim>\<open>vsscanf\<close> in \<^verbatim>\<open>lib/vsprintf.c\<close>), the
  \<open>scan\<close> of the running module: white space is skipped, then at least one decimal digit
  is needed; the digits are converted by \<^verbatim>\<open>simple_strtoull\<close> and the result is stored in
  an \<^verbatim>\<open>unsigned int\<close>, that is modulo \<open>2 ^ 32\<close> (the buffer holds at most 15 digits, so
  the 64-bit intermediate value does not overflow).
\<close>

definition is_space :: "char \<Rightarrow> bool" where
  "is_space c = (c \<in> set [CHR 0x20, CHR 0x09, CHR 0x0A, CHR 0x0B, CHR 0x0C, CHR 0x0D, CHR 0xA0])"

definition is_digit :: "char \<Rightarrow> bool" where
  "is_digit c = ((48::nat) \<le> of_char c \<and> (of_char c :: nat) \<le> 57)"

definition digits_value :: "string \<Rightarrow> nat" where
  "digits_value ds = foldl (\<lambda>v c. 10 * v + ((of_char c :: nat) - 48)) 0 ds"

definition kernel_scan_u :: "string \<Rightarrow> 32 word option" where
  "kernel_scan_u s =
    (let ds = takeWhile is_digit (dropWhile is_space s)
     in if ds = [] then None else Some (of_nat (digits_value ds)))"

subsection \<open>Runs of the module\<close>

text \<open>
  What can happen to a loaded module: the timer fires, a button interrupt arrives at
  some value of jiffies, the device is written or read.
\<close>

datatype 'w event =
    Tick
  | Toggle_irq 'w
  | Ped_irq 'w
  | Write string nat
  | Read nat nat nat

fun step ::
  "'j word \<Rightarrow> (string \<Rightarrow> 32 word option) \<Rightarrow> ('j::len) word module_state
     \<Rightarrow> 'j word event \<Rightarrow> 'j word module_state" where
  "step window scan st Tick = st\<lparr>t_light := timer_callback (t_light st)\<rparr>"
| "step window scan st (Toggle_irq jiffies) = toggle_interrupt_handler window jiffies st"
| "step window scan st (Ped_irq jiffies) = ped_interrupt_handler window jiffies st"
| "step window scan st (Write buf count) =
     st\<lparr>t_light := snd (mytraffic_write scan (t_light st) buf count)\<rparr>"
| "step window scan st (Read ubuf count f_pos) = st"

definition run ::
  "'j word \<Rightarrow> (string \<Rightarrow> 32 word option) \<Rightarrow> ('j::len) word module_state
     \<Rightarrow> 'j word event list \<Rightarrow> 'j word module_state" where
  "run window scan st evs = foldl (step window scan) st evs"

text \<open>The timer firing \<open>n\<close> times in a row, with nothing else in between.\<close>

fun ticks :: "nat \<Rightarrow> traffic_light \<Rightarrow> traffic_light" where
  "ticks 0 light = light"
| "ticks (Suc n) light = timer_callback (ticks n light)"

subsection \<open>Concrete inputs for the examples\<close>

text \<open>
  Allocated memory that holds \<open>v\<close> where \<^verbatim>\<open>ped_cycle_count\<close> lies and left-overs in
  other fields; a kernel that grants every request and returns that memory; and the
  light \<^verbatim>\<open>mytraffic_init\<close> makes of it (lemma \<open>init_example\<close>).
\<close>

definition stale_memory :: "32 word \<Rightarrow> traffic_light" where
  "stale_memory v =
     \<lparr>current_mode = FLASHING_YELLOW, cycle_count = 0, ped_cycle_count = v, rate = 0,
      red_active = True, yellow_active = False, green_active = False,
      ped_requested = False, ped_crossing = False, irq_toggle = 0, irq_ped = 0\<rparr>"

definition kernel_grants :: "traffic_light \<Rightarrow> kernel_env" where
  "kernel_grants mem =
     \<lparr>register_chrdev_result = 0, kmalloc_result = Some mem,
      gpio_request_result = (\<lambda>pin. 0), gpio_to_irq_result = (\<lambda>pin. 0)\<rparr>"

definition fresh_light :: "32 word \<Rightarrow> traffic_light" where
  "fresh_light v =
     \<lparr>current_mode = NORMAL, cycle_count = 0, ped_cycle_count = v, rate = 1,
      red_active = False, yellow_active = False, green_active = True,
      ped_requested = False, ped_crossing = False, irq_toggle = 0, irq_ped = 0\<rparr>"

text \<open>A light in Normal mode one tick before the first stop phase, with a request pending.\<close>

definition waiting_light :: traffic_light where
  "waiting_light = (fresh_light 0)\<lparr>cycle_count := 3, ped_requested := True\<rparr>"

text \<open>A loaded module in the middle of a pedestrian crossing.\<close>

definition crossing_module :: "32 word module_state" where
  "crossing_module =
     loaded ((fresh_light 0)\<lparr>cycle_count := 6, red_active := True, yellow_active := True,
                              green_active := False, ped_crossing := True,
                              ped_cycle_count := 2\<rparr>)"

text \<open>
  The light 2147483647 ticks after its initialisation, all in Normal mode with no request,
  at the moment the pedestrian button is pressed: the counter is at the largest \<^verbatim>\<open>int\<close>.
\<close>

definition wrapping_light :: traffic_light where
  "wrapping_light = (ticks 2147483647 (fresh_light 0))\<lparr>ped_requested := True\<rparr>"

section \<open>Properties\<close>

subsection \<open>Initialisation\<close>

lemma init_example: "mytraffic_init (kernel_grants (stale_memory v)) = Inr (fresh_light v)"
  by (simp add: mytraffic_init_def kernel_grants_def stale_memory_def fresh_light_def)

text \<open>
  A successful initialisation returns the allocated memory with ten fields assigned;
  \<^verbatim>\<open>ped_cycle_count\<close> is not among them.
\<close>

lemma mytraffic_init_Inr:
  assumes "mytraffic_init env = Inr l"
  shows "\<exists>mem. kmalloc_result env = Some mem \<and>
           l = mem\<lparr>cycle_count := 0, rate := 1, red_active := False,
                   yellow_active := False, green_active := True,
                   ped_requested := False, ped_crossing := False,
                   current_mode := NORMAL,
                   irq_toggle := gpio_to_irq_result env TOGGLE_BTN,
                   irq_ped := gpio_to_irq_result env PED_BTN\<rparr>"
  using assms
  by (auto simp: mytraffic_init_def Let_def split: if_splits option.splits)

text \<open>
  Claim C7: the freshly constructed state has mode Normal, green on, red and yellow off,
  rate 1, both counts zero and both pedestrian flags false. The code assigns every one of
  these fields except \<^verbatim>\<open>ped_cycle_count\<close>, which keeps whatever the memory from
  \<^verbatim>\<open>kmalloc\<close> held: on memory holding 7 there, the initialised light has
  \<^verbatim>\<open>ped_cycle_count = 7\<close>.
\<close>

theorem init_keeps_stale_ped_cycle_count:
  "mytraffic_init (kernel_grants (stale_memory 7)) =
     Inr \<lparr>current_mode = NORMAL, cycle_count = 0, ped_cycle_count = 7, rate = 1,
          red_active = False, yellow_active = False, green_active = True,
          ped_requested = False, ped_crossing = False, irq_toggle = 0, irq_ped = 0\<rparr>"
  by (simp add: mytraffic_init_def kernel_grants_def stale_memory_def)

subsection \<open>The normal cycle\<close>

text \<open>A tick in Normal mode with no crossing and no request only moves the phase.\<close>

lemma tick_idle:
  assumes "current_mode l = NORMAL" "\<not> ped_crossing l" "\<not> ped_requested l"
  shows "timer_callback l =
          l\<lparr>cycle_count := cycle_count l + 1,
            red_active := (sint (cycle_count l + 1) smod 6 = 4
                             \<or> sint (cycle_count l + 1) smod 6 = 5),
            yellow_active := (sint (cycle_count l + 1) smod 6 = 3),
            green_active := (sint (cycle_count l + 1) smod 6 \<noteq> 3
                               \<and> sint (cycle_count l + 1) smod 6 \<noteq> 4
                               \<and> sint (cycle_count l + 1) smod 6 \<noteq> 5)\<rparr>"
  using assms by (simp add: timer_callback_def cycle_position_def Let_def)

lemma ticks_idle:
  assumes "current_mode l = NORMAL" "\<not> ped_crossing l" "\<not> ped_requested l"
  shows "current_mode (ticks n l) = NORMAL \<and> \<not> ped_crossing (ticks n l) \<and>
         \<not> ped_requested (ticks n l) \<and> cycle_count (ticks n l) = cycle_count l + of_nat n"
proof (induction n)
  case 0
  show ?case using assms by simp
next
  case (Suc n)
  then show ?case by (simp add: tick_idle)
qed

lemma ticks_idle_gpio:
  assumes "current_mode l = NORMAL" "\<not> ped_crossing l" "\<not> ped_requested l" "0 < n"
  shows "gpio_values (ticks n l) =
          (let p = sint (cycle_count l + of_nat n) smod 6
           in (p = 4 \<or> p = 5, p = 3, p \<noteq> 3 \<and> p \<noteq> 4 \<and> p \<noteq> 5))"
proof -
  from \<open>0 < n\<close> obtain k where n: "n = Suc k" by (cases n) auto
  show ?thesis
    using ticks_idle [OF assms(1-3), of k]
    by (simp add: n tick_idle gpio_values_def Let_def add_ac)
qed

lemma init_ticks_gpio:
  assumes "mytraffic_init env = Inr l" "0 < n"
  shows "gpio_values (ticks n l) =
          (let p = sint (of_nat n :: 32 word) smod 6
           in (p = 4 \<or> p = 5, p = 3, p \<noteq> 3 \<and> p \<noteq> 4 \<and> p \<noteq> 5))"
proof -
  from mytraffic_init_Inr [OF assms(1)] have
    l: "current_mode l = NORMAL" "\<not> ped_crossing l" "\<not> ped_requested l" "cycle_count l = 0"
    by auto
  show ?thesis
    using ticks_idle_gpio [OF l(1-3) assms(2)] by (simp add: l(4))
qed

text \<open>
  Claim C1, as amended: the outputs (red, yellow, green) of a freshly initialised light
  are green only, and after the ticks 1 to 12 with no pedestrian request they are green,
  green, yellow, red, red, green and the same six again. The counter is incremented
  before the phase is taken, so the initial output is the first of the three greens and
  the third tick already shows yellow.
\<close>

theorem normal_cycle_from_init:
  assumes "mytraffic_init env = Inr l"
  shows "gpio_values l = (False, False, True) \<and>
         map (\<lambda>n. gpio_values (ticks n l)) [1, 2, 3, 4, 5, 6, 7, 8, 9, 10, 11, 12] =
          [(False, False, True), (False, False, True), (False, True, False),
           (True, False, False), (True, False, False), (False, False, True),
           (False, False, True), (False, False, True), (False, True, False),
           (True, False, False), (True, False, False), (False, False, True)]"
proof
  from mytraffic_init_Inr [OF assms] show "gpio_values l = (False, False, True)"
    by (auto simp: gpio_values_def)
next
  show "map (\<lambda>n. gpio_values (ticks n l)) [1, 2, 3, 4, 5, 6, 7, 8, 9, 10, 11, 12] =
          [(False, False, True), (False, False, True), (False, True, False),
           (True, False, False), (True, False, False), (False, False, True),
           (False, False, True), (False, False, True), (False, True, False),
           (True, False, False), (True, False, False), (False, False, True)]"
    by (simp add: init_ticks_gpio [OF assms] signed_modulo_int_def
             del: ticks.simps One_nat_def)
qed

theorem normal_cycle_from_init_witness:
  "mytraffic_init (kernel_grants (stale_memory 0)) = Inr (fresh_light 0) \<and>
   gpio_values (fresh_light 0) = (False, False, True) \<and>
   map (\<lambda>n. gpio_values (ticks n (fresh_light 0))) [1, 2, 3, 4, 5, 6, 7, 8, 9, 10, 11, 12] =
     [(False, False, True), (False, False, True), (False, True, False),
      (True, False, False), (True, False, False), (False, False, True),
      (False, False, True), (False, False, True), (False, True, False),
      (True, False, False), (True, False, False), (False, False, True)]"
  using normal_cycle_from_init [OF init_example [of 0]] init_example [of 0]
  by simp

text \<open>
  The claim as stated says green after the third tick and yellow after the fourth. On
  the light initialised from zeroed \<^verbatim>\<open>ped_cycle_count\<close> the third tick leaves yellow
  only, which is not green only.
\<close>

theorem third_tick_is_yellow_counterexample:
  "mytraffic_init (kernel_grants (stale_memory 0)) = Inr (fresh_light 0) \<and>
   gpio_values (ticks 3 (fresh_light 0)) = (False, True, False) \<and>
   gpio_values (ticks 3 (fresh_light 0)) \<noteq> (False, False, True)"
  by (simp add: init_example numeral_3_eq_3 timer_callback_def fresh_light_def
        gpio_values_def cycle_position_def signed_modulo_int_def)

subsection \<open>Invariants of all runs\<close>

text \<open>A property of the loaded module that every event preserves holds after every run.\<close>

lemma run_invariant:
  assumes "P st" and "\<And>s ev. P s \<Longrightarrow> P (step window scan s ev)"
  shows "P (run window scan st evs)"
  using assms(1) unfolding run_def
  by (induction evs arbitrary: st) (auto intro: assms(2))

lemma tick_gpio_valid:
  "gpio_values (timer_callback l) \<in>
     {(False, False, False), (False, True, False), (True, False, False),
      (False, False, True), (True, True, False)}"
  by (simp add: timer_callback_def gpio_values_def Let_def split: mode.splits)

text \<open>What the handlers and the write leave alone.\<close>

lemma toggle_frame:
  fixes st :: "('j::len) word module_state"
  shows "ped_cycle_count (t_light (toggle_interrupt_handler window jiffies st)) = ped_cycle_count (t_light st)"
    and "rate (t_light (toggle_interrupt_handler window jiffies st)) = rate (t_light st)"
    and "red_active (t_light (toggle_interrupt_handler window jiffies st)) = red_active (t_light st)"
    and "yellow_active (t_light (toggle_interrupt_handler window jiffies st)) = yellow_active (t_light st)"
    and "green_active (t_light (toggle_interrupt_handler window jiffies st)) = green_active (t_light st)"
    and "ped_requested (t_light (toggle_interrupt_handler window jiffies st)) = ped_requested (t_light st)"
    and "ped_crossing (t_light (toggle_interrupt_handler window jiffies st)) = ped_crossing (t_light st)"
  by (simp_all add: toggle_interrupt_handler_def Let_def split: mode.splits)

lemma ped_frame:
  fixes st :: "('j::len) word module_state"
  shows "current_mode (t_light (ped_interrupt_handler window jiffies st)) = current_mode (t_light st)"
    and "cycle_count (t_light (ped_interrupt_handler window jiffies st)) = cycle_count (t_light st)"
    and "ped_cycle_count (t_light (ped_interrupt_handler window jiffies st)) = ped_cycle_count (t_light st)"
    and "rate (t_light (ped_interrupt_handler window jiffies st)) = rate (t_light st)"
    and "red_active (t_light (ped_interrupt_handler window jiffies st)) = red_active (t_light st)"
    and "yellow_active (t_light (ped_interrupt_handler window jiffies st)) = yellow_active (t_light st)"
    and "green_active (t_light (ped_interrupt_handler window jiffies st)) = green_active (t_light st)"
    and "ped_crossing (t_light (ped_interrupt_handler window jiffies st)) = ped_crossing (t_light st)"
  by (simp_all add: ped_interrupt_handler_def Let_def)

lemma write_frame:
  shows "current_mode (snd (mytraffic_write scan l buf count)) = current_mode l"
    and "cycle_count (snd (mytraffic_write scan l buf count)) = cycle_count l"
    and "ped_cycle_count (snd (mytraffic_write scan l buf count)) = ped_cycle_count l"
    and "red_active (snd (mytraffic_write scan l buf count)) = red_active l"
    and "yellow_active (snd (mytraffic_write scan l buf count)) = yellow_active l"
    and "green_active (snd (mytraffic_write scan l buf count)) = green_active l"
    and "ped_requested (snd (mytraffic_write scan l buf count)) = ped_requested l"
    and "ped_crossing (snd (mytraffic_write scan l buf count)) = ped_crossing l"
  by (simp_all add: mytraffic_write_def Let_def split: option.splits)

lemma step_gpio_valid:
  fixes st :: "('j::len) word module_state"
  assumes "gpio_values (t_light st) \<in>
     {(False, False, False), (False, True, False), (True, False, False),
      (False, False, True), (True, True, False)}"
  shows "gpio_values (t_light (step window scan st ev)) \<in>
     {(False, False, False), (False, True, False), (True, False, False),
      (False, False, True), (True, True, False)}"
proof (cases ev)
  case Tick
  then show ?thesis using tick_gpio_valid [of "t_light st"] by simp
next
  case (Toggle_irq j)
  with assms show ?thesis by (simp add: gpio_values_def toggle_frame)
next
  case (Ped_irq j)
  with assms show ?thesis by (simp add: gpio_values_def ped_frame)
next
  case (Write buf count)
  with assms show ?thesis by (simp add: gpio_values_def write_frame)
next
  case (Read a b c)
  with assms show ?thesis by simp
qed

text \<open>
  Claim C2: in every state reached from a successfully initialised module by any sequence
  of ticks, toggle interrupts, pedestrian interrupts, writes and reads, the outputs
  (red, yellow, green) are one of: all off, yellow only, red only, green only, red and
  yellow. Green is never on together with red or yellow.
\<close>

theorem reachable_gpio_valid:
  fixes window :: "('j::len) word"
  assumes "mytraffic_init env = Inr l"
  shows "gpio_values (t_light (run window scan (loaded l) evs)) \<in>
     {(False, False, False), (False, True, False), (True, False, False),
      (False, False, True), (True, True, False)}"
proof (rule run_invariant)
  from mytraffic_init_Inr [OF assms]
  show "gpio_values (t_light (loaded l :: 'j word module_state)) \<in>
     {(False, False, False), (False, True, False), (True, False, False),
      (False, False, True), (True, True, False)}"
    by (auto simp: gpio_values_def loaded_def)
qed (rule step_gpio_valid)

theorem reachable_gpio_valid_witness:
  "mytraffic_init (kernel_grants (stale_memory 0)) = Inr (fresh_light 0) \<and>
   gpio_values (t_light (run (25 :: 32 word) kernel_scan_u (loaded (fresh_light 0))
        [Ped_irq 1000, Tick, Tick, Tick, Tick, Toggle_irq 2000, Tick])) = (True, False, False) \<and>
   (True, False, False) \<in>
     {(False, False, False), (False, True, False), (True, False, False),
      (False, False, True), (True, True, False)}"
proof -
  have "gpio_values (t_light (run (25 :: 32 word) kernel_scan_u (loaded (fresh_light 0))
        [Ped_irq 1000, Tick, Tick, Tick, Tick, Toggle_irq 2000, Tick])) = (True, False, False)"
    by code_simp
  then show ?thesis
    using reachable_gpio_valid [OF init_example [of 0], of 25 kernel_scan_u
            "[Ped_irq 1000, Tick, Tick, Tick, Tick, Toggle_irq 2000, Tick]"]
      init_example [of 0]
    by simp
qed

subsection \<open>The pedestrian counter\<close>

text \<open>Below 5 the increment of the signed counter does not wrap.\<close>

lemma sint_succ_small:
  fixes x :: "32 word"
  assumes "0 \<le> sint x" "sint x < 5"
  shows "sint (x + 1) = sint x + 1"
proof -
  have "sint (x + 1) = signed_take_bit (31::nat) (sint x + 1)"
    by (simp add: sint_word_ariths word_size)
  also have "\<dots> = sint x + 1"
    using assms by (intro signed_take_bit_int_eq_self) simp_all
  finally show ?thesis .
qed

lemma tick_ped_cycle_count_range:
  assumes "0 \<le> sint (ped_cycle_count l)" "sint (ped_cycle_count l) \<le> 5"
  shows "0 \<le> sint (ped_cycle_count (timer_callback l)) \<and>
         sint (ped_cycle_count (timer_callback l)) \<le> 5"
  using assms
  by (auto simp: timer_callback_def Let_def sint_succ_small split: mode.splits)

lemma step_ped_cycle_count_range:
  fixes st :: "('j::len) word module_state"
  assumes "0 \<le> sint (ped_cycle_count (t_light st)) \<and> sint (ped_cycle_count (t_light st)) \<le> 5"
  shows "0 \<le> sint (ped_cycle_count (t_light (step window scan st ev))) \<and>
         sint (ped_cycle_count (t_light (step window scan st ev))) \<le> 5"
proof (cases ev)
  case Tick
  then show ?thesis using tick_ped_cycle_count_range [of "t_light st"] assms by simp
qed (use assms in \<open>simp_all add: toggle_frame ped_frame write_frame\<close>)

lemma tick_crossing_starts:
  assumes "\<not> ped_crossing l" "ped_crossing (timer_callback l)"
  shows "ped_cycle_count (timer_callback l) = 0"
  using assms
  by (auto simp: timer_callback_def Let_def split: mode.splits if_splits)

lemma tick_crossing_completes:
  assumes "ped_crossing l" "\<not> ped_crossing (timer_callback l)"
  shows "ped_cycle_count (timer_callback l) = 0"
  using assms
  by (auto simp: timer_callback_def Let_def split: mode.splits if_splits)

text \<open>
  Claim C5, as amended: in every state reached from an initialised module whose
  \<^verbatim>\<open>ped_cycle_count\<close> was 0 at the start, \<^verbatim>\<open>ped_cycle_count\<close> lies in the closed range
  from 0 to 5; and a tick that starts a crossing (\<^verbatim>\<open>ped_crossing\<close> goes from false to
  true) or completes one (from true to false) leaves \<^verbatim>\<open>ped_cycle_count = 0\<close>.
\<close>

theorem reachable_ped_cycle_count_bounds:
  fixes window :: "('j::len) word"
  assumes "mytraffic_init env = Inr l" and "ped_cycle_count l = 0"
  shows "0 \<le> sint (ped_cycle_count (t_light (run window scan (loaded l) evs))) \<and>
         sint (ped_cycle_count (t_light (run window scan (loaded l) evs))) \<le> 5 \<and>
         (\<not> ped_crossing l0 \<and> ped_crossing (timer_callback l0)
            \<longrightarrow> ped_cycle_count (timer_callback l0) = 0) \<and>
         (ped_crossing l1 \<and> \<not> ped_crossing (timer_callback l1)
            \<longrightarrow> ped_cycle_count (timer_callback l1) = 0)"
proof -
  have "0 \<le> sint (ped_cycle_count (t_light (run window scan (loaded l) evs))) \<and>
        sint (ped_cycle_count (t_light (run window scan (loaded l) evs))) \<le> 5"
  proof (rule run_invariant)
    show "0 \<le> sint (ped_cycle_count (t_light (loaded l :: 'j word module_state))) \<and>
          sint (ped_cycle_count (t_light (loaded l :: 'j word module_state))) \<le> 5"
      using assms(2) by (simp add: loaded_def)
  qed (rule step_ped_cycle_count_range)
  then show ?thesis
    using tick_crossing_starts [of l0] tick_crossing_completes [of l1] by blast
qed

theorem reachable_ped_cycle_count_bounds_witness:
  "mytraffic_init (kernel_grants (stale_memory 0)) = Inr (fresh_light 0) \<and>
   ped_cycle_count (fresh_light 0) = 0 \<and>
   ped_cycle_count (t_light (run (25 :: 32 word) kernel_scan_u (loaded (fresh_light 0))
      [Ped_irq 1000, Tick, Tick, Tick, Tick, Tick, Tick, Tick])) = 3 \<and>
   \<not> ped_crossing ((fresh_light 7)\<lparr>cycle_count := 3, ped_requested := True\<rparr>) \<and>
   ped_crossing (timer_callback ((fresh_light 7)\<lparr>cycle_count := 3, ped_requested := True\<rparr>)) \<and>
   ped_cycle_count (timer_callback ((fresh_light 7)\<lparr>cycle_count := 3, ped_requested := True\<rparr>)) = 0 \<and>
   ped_crossing ((fresh_light 5)\<lparr>ped_crossing := True\<rparr>) \<and>
   \<not> ped_crossing (timer_callback ((fresh_light 5)\<lparr>ped_crossing := True\<rparr>)) \<and>
   ped_cycle_count (timer_callback ((fresh_light 5)\<lparr>ped_crossing := True\<rparr>)) = 0"
proof -
  have a: "ped_cycle_count (fresh_light 0) = 0" by (simp add: fresh_light_def)
  have b: "ped_cycle_count (t_light (run (25 :: 32 word) kernel_scan_u (loaded (fresh_light 0))
      [Ped_irq 1000, Tick, Tick, Tick, Tick, Tick, Tick, Tick])) = 3" by code_simp
  have c: "\<not> ped_crossing ((fresh_light 7)\<lparr>cycle_count := 3, ped_requested := True\<rparr>)"
    "ped_crossing (timer_callback ((fresh_light 7)\<lparr>cycle_count := 3, ped_requested := True\<rparr>))"
    by code_simp+
  have d: "ped_crossing ((fresh_light 5)\<lparr>ped_crossing := True\<rparr>)"
   "\<not> ped_crossing (timer_callback ((fresh_light 5)\<lparr>ped_crossing := True\<rparr>))"
    by code_simp+
  show ?thesis
    using reachable_ped_cycle_count_bounds [OF init_example [of 0] a, of 25 kernel_scan_u
       "[Ped_irq 1000, Tick, Tick, Tick, Tick, Tick, Tick, Tick]"
       "(fresh_light 7)\<lparr>cycle_count := 3, ped_requested := True\<rparr>"
       "(fresh_light 5)\<lparr>ped_crossing := True\<rparr>"]
      init_example [of 0] a b c d
    by blast
qed

text \<open>
  The claim as stated bounds the counter by 4. The fifth tick of a crossing raises it
  to 5 (the sixth then completes the crossing): a request, four ticks up to the stop
  phase that starts the crossing, five more ticks.
\<close>

theorem ped_cycle_count_reaches_five_counterexample:
  "mytraffic_init (kernel_grants (stale_memory 0)) = Inr (fresh_light 0) \<and>
   ped_cycle_count (t_light (run (25 :: 32 word) kernel_scan_u (loaded (fresh_light 0))
      [Ped_irq 1000, Tick, Tick, Tick, Tick, Tick, Tick, Tick, Tick, Tick])) = 5 \<and>
   \<not> sint (ped_cycle_count (t_light (run (25 :: 32 word) kernel_scan_u (loaded (fresh_light 0))
      [Ped_irq 1000, Tick, Tick, Tick, Tick, Tick, Tick, Tick, Tick, Tick]))) \<le> 4"
proof -
  have "ped_cycle_count (t_light (run (25 :: 32 word) kernel_scan_u (loaded (fresh_light 0))
      [Ped_irq 1000, Tick, Tick, Tick, Tick, Tick, Tick, Tick, Tick, Tick])) = 5"
    by code_simp
  then show ?thesis by (simp add: init_example)
qed

subsection \<open>The pedestrian crossing\<close>

text \<open>
  C's \<^verbatim>\<open>%\<close> agrees with the mathematical \<open>mod\<close> on a counter that is not negative, and
  is never positive on a negative one.
\<close>

lemma smod6_nonneg: "0 \<le> (k::int) \<Longrightarrow> k smod 6 = k mod 6"
  by (cases "k = 0") (simp_all add: signed_modulo_int_def)

lemma smod6_nonpos: "(k::int) \<le> 0 \<Longrightarrow> k smod 6 \<le> 0"
  by (simp add: signed_modulo_int_def mult_nonpos_nonneg sgn_if)

lemma tick_request_phase:
  assumes "current_mode l = NORMAL"
    and "gpio_values (timer_callback (l\<lparr>ped_requested := True\<rparr>)) \<noteq>
         gpio_values (timer_callback (l\<lparr>ped_requested := False\<rparr>))"
  shows "\<not> ped_crossing l \<and> 0 < sint (cycle_count l + 1) \<and>
         (sint (cycle_count l + 1) mod 6 = 4 \<or> sint (cycle_count l + 1) mod 6 = 5)"
proof -
  from assms have a: "\<not> ped_crossing l"
    and b: "sint (cycle_count l + 1) smod 6 = 4 \<or> sint (cycle_count l + 1) smod 6 = 5"
    by (auto simp: timer_callback_def Let_def gpio_values_def cycle_position_def
             split: if_splits)
  from b smod6_nonpos [of "sint (cycle_count l + 1)"]
  have c: "0 < sint (cycle_count l + 1)" by (cases "sint (cycle_count l + 1) \<le> 0") auto
  with b smod6_nonneg [of "sint (cycle_count l + 1)"] a show ?thesis by auto
qed

lemma tick_crossing_start_phase:
  assumes "current_mode l = NORMAL" "ped_requested l" "\<not> ped_crossing l"
    and "0 \<le> sint (cycle_count l + 1)"
    and "sint (cycle_count l + 1) mod 6 = 4 \<or> sint (cycle_count l + 1) mod 6 = 5"
  shows "timer_callback l =
          l\<lparr>cycle_count := cycle_count l + 1, red_active := True, yellow_active := True,
            green_active := False, ped_crossing := True, ped_requested := False,
            ped_cycle_count := 0\<rparr>"
  using assms smod6_nonneg [of "sint (cycle_count l + 1)"]
  by (auto simp: timer_callback_def Let_def cycle_position_def)

lemma tick_request_waits:
  assumes "current_mode l = NORMAL" "ped_requested l" "\<not> ped_crossing l"
    and "0 \<le> sint (cycle_count l + 1)"
    and "sint (cycle_count l + 1) mod 6 \<noteq> 4" "sint (cycle_count l + 1) mod 6 \<noteq> 5"
  shows "ped_requested (timer_callback l) \<and> \<not> ped_crossing (timer_callback l) \<and>
         gpio_values (timer_callback l) =
           gpio_values (timer_callback (l\<lparr>ped_requested := False\<rparr>))"
  using assms smod6_nonneg [of "sint (cycle_count l + 1)"]
  by (auto simp: timer_callback_def Let_def cycle_position_def gpio_values_def)

text \<open>The first five ticks of a crossing count up and show red and yellow.\<close>

lemma crossing_ticks:
  assumes "current_mode l = NORMAL" "ped_crossing l" "ped_cycle_count l = 0" "n \<le> 5"
  shows "current_mode (ticks n l) = NORMAL \<and> ped_crossing (ticks n l) \<and>
         ped_cycle_count (ticks n l) = of_nat n \<and>
         (0 < n \<longrightarrow> gpio_values (ticks n l) = (True, True, False))"
  using assms(4)
proof (induction n)
  case 0
  show ?case using assms by simp
next
  case (Suc n)
  then have ih: "current_mode (ticks n l) = NORMAL" "ped_crossing (ticks n l)"
    "ped_cycle_count (ticks n l) = of_nat n" and n: "n < 5" by auto
  from n have "n = 0 \<or> n = 1 \<or> n = 2 \<or> n = 3 \<or> n = 4" by arith
  then have "sint (of_nat n :: 32 word) < 5" by auto
  then show ?case
    using ih by (simp add: timer_callback_def Let_def gpio_values_def)
qed

lemma crossing_completes:
  assumes "current_mode l = NORMAL" "ped_crossing l" "ped_cycle_count l = 0"
  shows "gpio_values (ticks 6 l) = (False, False, True) \<and> cycle_count (ticks 6 l) = 0 \<and>
         \<not> ped_crossing (ticks 6 l)"
proof -
  have "ticks 6 l = timer_callback (ticks 5 l)" by (simp add: eval_nat_numeral)
  moreover from crossing_ticks [OF assms, of 5]
  have "current_mode (ticks 5 l) = NORMAL" "ped_crossing (ticks 5 l)"
    "ped_cycle_count (ticks 5 l) = 5" by simp_all
  ultimately show ?thesis
    by (simp add: timer_callback_def Let_def gpio_values_def)
qed

text \<open>
  The crossing while the counter is not negative. In Normal mode, whether a request is
  pending changes the outputs of a tick only when no crossing is active and the phase,
  the incremented \<^verbatim>\<open>cycle_count\<close> modulo 6, is 4 or 5. At any other phase a pending request
  stays pending and the outputs are those of the normal cycle. At phase 4 or 5 the
  crossing starts: red and yellow on, green off, \<^verbatim>\<open>ped_requested\<close> cleared,
  \<^verbatim>\<open>ped_crossing\<close> set, \<^verbatim>\<open>ped_cycle_count = 0\<close>; each of the next five ticks keeps red and
  yellow on and green off, and the sixth shows green only, with \<^verbatim>\<open>cycle_count = 0\<close> and
  \<^verbatim>\<open>ped_crossing\<close> cleared.
\<close>

theorem pedestrian_crossing:
  assumes "current_mode l = NORMAL"
  shows "(gpio_values (timer_callback (l\<lparr>ped_requested := True\<rparr>)) \<noteq>
          gpio_values (timer_callback (l\<lparr>ped_requested := False\<rparr>))
          \<longrightarrow> \<not> ped_crossing l \<and> 0 < sint (cycle_count l + 1) \<and>
              (sint (cycle_count l + 1) mod 6 = 4 \<or> sint (cycle_count l + 1) mod 6 = 5)) \<and>
         (ped_requested l \<and> \<not> ped_crossing l \<and> 0 \<le> sint (cycle_count l + 1) \<and>
          sint (cycle_count l + 1) mod 6 \<noteq> 4 \<and> sint (cycle_count l + 1) mod 6 \<noteq> 5
          \<longrightarrow> ped_requested (timer_callback l) \<and> \<not> ped_crossing (timer_callback l) \<and>
              gpio_values (timer_callback l) =
                gpio_values (timer_callback (l\<lparr>ped_requested := False\<rparr>))) \<and>
         (ped_requested l \<and> \<not> ped_crossing l \<and> 0 \<le> sint (cycle_count l + 1) \<and>
          (sint (cycle_count l + 1) mod 6 = 4 \<or> sint (cycle_count l + 1) mod 6 = 5)
          \<longrightarrow> cycle_count (timer_callback l) = cycle_count l + 1 \<and>
              gpio_values (timer_callback l) = (True, True, False) \<and>
              \<not> ped_requested (timer_callback l) \<and> ped_crossing (timer_callback l) \<and>
              ped_cycle_count (timer_callback l) = 0 \<and>
              map (\<lambda>n. gpio_values (ticks n (timer_callback l))) [1, 2, 3, 4, 5] =
                [(True, True, False), (True, True, False), (True, True, False),
                 (True, True, False), (True, True, False)] \<and>
              map (\<lambda>n. ped_crossing (ticks n (timer_callback l))) [1, 2, 3, 4, 5] =
                [True, True, True, True, True] \<and>
              gpio_values (ticks 6 (timer_callback l)) = (False, False, True) \<and>
              cycle_count (ticks 6 (timer_callback l)) = 0 \<and>
              \<not> ped_crossing (ticks 6 (timer_callback l)))"
proof (intro conjI impI)
  assume "gpio_values (timer_callback (l\<lparr>ped_requested := True\<rparr>)) \<noteq>
          gpio_values (timer_callback (l\<lparr>ped_requested := False\<rparr>))"
  from tick_request_phase [OF assms this]
  show "\<not> ped_crossing l" and "0 < sint (cycle_count l + 1)"
    and "sint (cycle_count l + 1) mod 6 = 4 \<or> sint (cycle_count l + 1) mod 6 = 5"
    by simp_all
next
  assume "ped_requested l \<and> \<not> ped_crossing l \<and> 0 \<le> sint (cycle_count l + 1) \<and>
          sint (cycle_count l + 1) mod 6 \<noteq> 4 \<and> sint (cycle_count l + 1) mod 6 \<noteq> 5"
  then have "ped_requested (timer_callback l) \<and> \<not> ped_crossing (timer_callback l) \<and>
         gpio_values (timer_callback l) =
           gpio_values (timer_callback (l\<lparr>ped_requested := False\<rparr>))"
    using tick_request_waits [OF assms] by blast
  then show "ped_requested (timer_callback l)" and "\<not> ped_crossing (timer_callback l)"
    and "gpio_values (timer_callback l) =
           gpio_values (timer_callback (l\<lparr>ped_requested := False\<rparr>))"
    by simp_all
next
  assume a: "ped_requested l \<and> \<not> ped_crossing l \<and> 0 \<le> sint (cycle_count l + 1) \<and>
          (sint (cycle_count l + 1) mod 6 = 4 \<or> sint (cycle_count l + 1) mod 6 = 5)"
  then have tc: "timer_callback l =
          l\<lparr>cycle_count := cycle_count l + 1, red_active := True, yellow_active := True,
            green_active := False, ped_crossing := True, ped_requested := False,
            ped_cycle_count := 0\<rparr>"
    using tick_crossing_start_phase [OF assms] by blast
  then have s: "current_mode (timer_callback l) = NORMAL" "ped_crossing (timer_callback l)"
    "ped_cycle_count (timer_callback l) = 0"
    using assms by simp_all
  show "cycle_count (timer_callback l) = cycle_count l + 1"
    and "gpio_values (timer_callback l) = (True, True, False)"
    and "\<not> ped_requested (timer_callback l)" and "ped_crossing (timer_callback l)"
    and "ped_cycle_count (timer_callback l) = 0"
    by (simp_all add: tc gpio_values_def)
  show "map (\<lambda>n. gpio_values (ticks n (timer_callback l))) [1, 2, 3, 4, 5] =
                [(True, True, False), (True, True, False), (True, True, False),
                 (True, True, False), (True, True, False)]"
    using crossing_ticks [OF s, of 1] crossing_ticks [OF s, of 2] crossing_ticks [OF s, of 3]
      crossing_ticks [OF s, of 4] crossing_ticks [OF s, of 5]
    by (simp del: ticks.simps One_nat_def)
  show "map (\<lambda>n. ped_crossing (ticks n (timer_callback l))) [1, 2, 3, 4, 5] =
                [True, True, True, True, True]"
    using crossing_ticks [OF s, of 1] crossing_ticks [OF s, of 2] crossing_ticks [OF s, of 3]
      crossing_ticks [OF s, of 4] crossing_ticks [OF s, of 5]
    by (simp del: ticks.simps One_nat_def)
  from crossing_completes [OF s]
  show "gpio_values (ticks 6 (timer_callback l)) = (False, False, True)"
    and "cycle_count (ticks 6 (timer_callback l)) = 0"
    and "\<not> ped_crossing (ticks 6 (timer_callback l))"
    by simp_all
qed

lemma pedestrian_crossing_example:
  "current_mode waiting_light = NORMAL \<and> ped_requested waiting_light \<and>
   \<not> ped_crossing waiting_light \<and> sint (cycle_count waiting_light + 1) = 4 \<and>
   gpio_values (timer_callback (waiting_light\<lparr>ped_requested := False\<rparr>)) =
     (True, False, False) \<and>
   gpio_values (timer_callback waiting_light) = (True, True, False) \<and>
   map (\<lambda>n. gpio_values (ticks n (timer_callback waiting_light))) [1, 2, 3, 4, 5, 6] =
     [(True, True, False), (True, True, False), (True, True, False),
      (True, True, False), (True, True, False), (False, False, True)] \<and>
   cycle_count (ticks 6 (timer_callback waiting_light)) = 0"
  by code_simp

text \<open>With a counter that is zero or negative after the increment, the tick shows green.\<close>

lemma tick_wrapped:
  assumes "current_mode l = NORMAL" "\<not> ped_crossing l" "sint (cycle_count l + 1) \<le> 0"
  shows "timer_callback l =
          l\<lparr>cycle_count := cycle_count l + 1, red_active := False, yellow_active := False,
            green_active := True\<rparr>"
  using assms smod6_nonpos [of "sint (cycle_count l + 1)"]
  by (simp add: timer_callback_def cycle_position_def Let_def)

lemma wrapping_light_fields:
  "current_mode wrapping_light = NORMAL" "\<not> ped_crossing wrapping_light"
  "ped_requested wrapping_light" "cycle_count wrapping_light = 2147483647"
proof -
  have "current_mode (fresh_light 0) = NORMAL" "\<not> ped_crossing (fresh_light 0)"
    "\<not> ped_requested (fresh_light 0)" "cycle_count (fresh_light 0) = 0"
    by (simp_all add: fresh_light_def)
  from ticks_idle [OF this(1-3), of 2147483647] this(4)
  show "current_mode wrapping_light = NORMAL" "\<not> ped_crossing wrapping_light"
    "ped_requested wrapping_light" "cycle_count wrapping_light = 2147483647"
    by (simp_all add: wrapping_light_def)
qed

lemma ticks_wrapped:
  assumes "current_mode l = NORMAL" "\<not> ped_crossing l"
    and "\<And>i. i < n \<Longrightarrow> sint (cycle_count l + of_nat i + 1) \<le> 0"
  shows "current_mode (ticks n l) = NORMAL \<and> \<not> ped_crossing (ticks n l) \<and>
         ped_requested (ticks n l) = ped_requested l \<and>
         cycle_count (ticks n l) = cycle_count l + of_nat n \<and>
         (0 < n \<longrightarrow> gpio_values (ticks n l) = (False, False, True))"
  using assms(3)
proof (induction n)
  case 0
  show ?case using assms(1,2) by simp
next
  case (Suc n)
  then have ih: "current_mode (ticks n l) = NORMAL" "\<not> ped_crossing (ticks n l)"
    "ped_requested (ticks n l) = ped_requested l"
    "cycle_count (ticks n l) = cycle_count l + of_nat n"
    by simp_all
  from Suc.prems [of n] ih(4) have "sint (cycle_count (ticks n l) + 1) \<le> 0" by simp
  from tick_wrapped [OF ih(1,2) this] ih show ?case
    by (simp add: gpio_values_def add_ac)
qed

lemma wrapping_light_ticks:
  assumes "n \<le> 4"
  shows "current_mode (ticks n wrapping_light) = NORMAL \<and>
         \<not> ped_crossing (ticks n wrapping_light) \<and>
         ped_requested (ticks n wrapping_light) \<and>
         cycle_count (ticks n wrapping_light) = 2147483647 + of_nat n \<and>
         (0 < n \<longrightarrow> gpio_values (ticks n wrapping_light) = (False, False, True))"
proof -
  have "sint (cycle_count wrapping_light + of_nat i + 1) \<le> 0" if "i < n" for i
  proof -
    from that assms have "i = 0 \<or> i = 1 \<or> i = 2 \<or> i = 3" by arith
    then show ?thesis by (auto simp: wrapping_light_fields)
  qed
  from ticks_wrapped [OF wrapping_light_fields(1,2) this, of n]
  show ?thesis by (simp add: wrapping_light_fields)
qed

text \<open>
  Claim C3: in Normal mode a pending request changes the outputs only on a tick whose
  phase \<^verbatim>\<open>cycle_count\<close> mod 6 is 4 or 5, and on that tick the crossing starts. The code
  does so while the counter is not negative (theorem \<open>pedestrian_crossing\<close>). But
  \<^verbatim>\<open>cycle_count\<close> is an \<^verbatim>\<open>int\<close> that is incremented on every tick: 2147483647 ticks after
  the initialisation it is at the largest \<^verbatim>\<open>int\<close>, and the next increment makes it
  negative. From then on \<^verbatim>\<open>cycle_count % 6\<close> is zero or negative and every tick shows
  green. With a request pending, on the next four ticks the phase is 4, 5, 0, 1 as the
  signed value modulo 6 and 2, 3, 4, 5 as the unsigned value modulo 6: on each of them
  the output is green only, the request stays pending and no crossing starts.
\<close>

theorem wrapped_counter_ignores_request:
  "cycle_count wrapping_light = 2147483647 \<and> ped_requested wrapping_light \<and>
   current_mode wrapping_light = NORMAL \<and> \<not> ped_crossing wrapping_light \<and>
   map (\<lambda>n. sint (cycle_count (ticks n wrapping_light))) [1, 2, 3, 4] =
     [- 2147483648, - 2147483647, - 2147483646, - 2147483645] \<and>
   map (\<lambda>n. sint (cycle_count (ticks n wrapping_light)) mod 6) [1, 2, 3, 4] = [4, 5, 0, 1] \<and>
   map (\<lambda>n. unat (cycle_count (ticks n wrapping_light)) mod 6) [1, 2, 3, 4] = [2, 3, 4, 5] \<and>
   map (\<lambda>n. gpio_values (ticks n wrapping_light)) [1, 2, 3, 4] =
     [(False, False, True), (False, False, True), (False, False, True), (False, False, True)] \<and>
   map (\<lambda>n. ped_requested (ticks n wrapping_light)) [1, 2, 3, 4] = [True, True, True, True] \<and>
   map (\<lambda>n. ped_crossing (ticks n wrapping_light)) [1, 2, 3, 4] = [False, False, False, False]"
proof -
  have f: "cycle_count (ticks n wrapping_light) = 2147483647 + of_nat n"
    "gpio_values (ticks n wrapping_light) = (False, False, True)"
    "ped_requested (ticks n wrapping_light) = True"
    "ped_crossing (ticks n wrapping_light) = False"
    if "0 < n" "n \<le> 4" for n
    using wrapping_light_ticks [OF that(2)] that(1) by simp_all
  have v: "sint (2147483648 :: 32 word) = - 2147483648"
    "sint (2147483649 :: 32 word) = - 2147483647"
    "sint (2147483650 :: 32 word) = - 2147483646"
    "sint (2147483651 :: 32 word) = - 2147483645"
    "unat (2147483648 :: 32 word) = 2147483648" "unat (2147483649 :: 32 word) = 2147483649"
    "unat (2147483650 :: 32 word) = 2147483650" "unat (2147483651 :: 32 word) = 2147483651"
    by simp_all
  have c: "cycle_count (ticks 1 wrapping_light) = 2147483648"
    "cycle_count (ticks 2 wrapping_light) = 2147483649"
    "cycle_count (ticks 3 wrapping_light) = 2147483650"
    "cycle_count (ticks 4 wrapping_light) = 2147483651"
    using f(1) [of 1] f(1) [of 2] f(1) [of 3] f(1) [of 4] by simp_all
  have g: "gpio_values (ticks 1 wrapping_light) = (False, False, True)"
    "gpio_values (ticks 2 wrapping_light) = (False, False, True)"
    "gpio_values (ticks 3 wrapping_light) = (False, False, True)"
    "gpio_values (ticks 4 wrapping_light) = (False, False, True)"
    using f(2) [of 1] f(2) [of 2] f(2) [of 3] f(2) [of 4] by simp_all
  have r: "ped_requested (ticks 1 wrapping_light) = True"
    "ped_requested (ticks 2 wrapping_light) = True"
    "ped_requested (ticks 3 wrapping_light) = True"
    "ped_requested (ticks 4 wrapping_light) = True"
    using f(3) [of 1] f(3) [of 2] f(3) [of 3] f(3) [of 4] by simp_all
  have x: "ped_crossing (ticks 1 wrapping_light) = False"
    "ped_crossing (ticks 2 wrapping_light) = False"
    "ped_crossing (ticks 3 wrapping_light) = False"
    "ped_crossing (ticks 4 wrapping_light) = False"
    using f(4) [of 1] f(4) [of 2] f(4) [of 3] f(4) [of 4] by simp_all
  show ?thesis
    unfolding list.map c v g r x
    by (simp add: wrapping_light_fields)
qed

subsection \<open>The two pedestrian flags\<close>

lemma tick_ped_flags:
  assumes "\<not> (ped_requested l \<and> ped_crossing l)"
  shows "\<not> (ped_requested (timer_callback l) \<and> ped_crossing (timer_callback l))"
  using assms
  by (auto simp: timer_callback_def Let_def split: mode.splits if_splits)

lemma ped_handler_requested:
  fixes st :: "('j::len) word module_state"
  shows "ped_requested (t_light (ped_interrupt_handler window jiffies st)) =
     (ped_requested (t_light st) \<or>
      (\<not> jiffies - ped_most_recent_interrupt st < window \<and> current_mode (t_light st) = NORMAL))"
  by (simp add: ped_interrupt_handler_def Let_def)

lemma tick_keeps_both_flags:
  assumes "ped_requested l" "ped_crossing l"
    and "current_mode l \<noteq> NORMAL \<or> sint (ped_cycle_count l) < 5"
  shows "ped_requested (timer_callback l) \<and> ped_crossing (timer_callback l)"
  using assms
  by (auto simp: timer_callback_def Let_def split: mode.splits)

text \<open>
  Claim C4, as amended: every tick, toggle interrupt, write and read leaves
  \<^verbatim>\<open>ped_requested\<close> and \<^verbatim>\<open>ped_crossing\<close> not both true if they were not both true
  before, and so does a pedestrian interrupt when no crossing is active. A pedestrian
  interrupt accepted in Normal mode while a crossing is active leaves both true. Once
  both are true they stay true over every event except the tick that completes the
  crossing (a tick in Normal mode with \<^verbatim>\<open>ped_cycle_count\<close> not below 5), and that tick
  clears both.
\<close>

theorem ped_flags_exclusive_step:
  fixes st :: "('j::len) word module_state"
  shows "(\<not> (ped_requested (t_light st) \<and> ped_crossing (t_light st)) \<and>
          ((\<forall>j. ev \<noteq> Ped_irq j) \<or> \<not> ped_crossing (t_light st))
          \<longrightarrow> \<not> (ped_requested (t_light (step window scan st ev)) \<and>
                 ped_crossing (t_light (step window scan st ev)))) \<and>
         (current_mode (t_light st) = NORMAL \<and> ped_crossing (t_light st) \<and>
          \<not> jiffies - ped_most_recent_interrupt st < window
          \<longrightarrow> ped_requested (t_light (ped_interrupt_handler window jiffies st)) \<and>
              ped_crossing (t_light (ped_interrupt_handler window jiffies st))) \<and>
         (ped_requested (t_light st) \<and> ped_crossing (t_light st) \<and>
          \<not> (ev = Tick \<and> current_mode (t_light st) = NORMAL \<and>
             \<not> sint (ped_cycle_count (t_light st)) < 5)
          \<longrightarrow> ped_requested (t_light (step window scan st ev)) \<and>
              ped_crossing (t_light (step window scan st ev))) \<and>
         (current_mode l = NORMAL \<and> ped_crossing l \<and> \<not> sint (ped_cycle_count l) < 5
          \<longrightarrow> \<not> ped_requested (timer_callback l) \<and> \<not> ped_crossing (timer_callback l))"
proof (intro conjI impI)
  assume a: "\<not> (ped_requested (t_light st) \<and> ped_crossing (t_light st)) \<and>
          ((\<forall>j. ev \<noteq> Ped_irq j) \<or> \<not> ped_crossing (t_light st))"
  show "\<not> (ped_requested (t_light (step window scan st ev)) \<and>
                 ped_crossing (t_light (step window scan st ev)))"
  proof (cases ev)
    case Tick
    then show ?thesis using tick_ped_flags [of "t_light st"] a by simp
  next
    case (Ped_irq j)
    with a show ?thesis by (simp add: ped_frame)
  qed (use a in \<open>simp_all add: toggle_frame write_frame\<close>)
next
  assume "current_mode (t_light st) = NORMAL \<and> ped_crossing (t_light st) \<and>
          \<not> jiffies - ped_most_recent_interrupt st < window"
  then show "ped_requested (t_light (ped_interrupt_handler window jiffies st))"
    and "ped_crossing (t_light (ped_interrupt_handler window jiffies st))"
    by (simp_all add: ped_handler_requested ped_frame)
next
  assume b: "ped_requested (t_light st) \<and> ped_crossing (t_light st) \<and>
          \<not> (ev = Tick \<and> current_mode (t_light st) = NORMAL \<and>
             \<not> sint (ped_cycle_count (t_light st)) < 5)"
  have "ped_requested (t_light (step window scan st ev)) \<and>
        ped_crossing (t_light (step window scan st ev))"
  proof (cases ev)
    case Tick
    with b show ?thesis using tick_keeps_both_flags [of "t_light st"] by auto
  next
    case (Ped_irq j)
    with b show ?thesis by (simp add: ped_frame ped_handler_requested)
  qed (use b in \<open>simp_all add: toggle_frame write_frame\<close>)
  then show "ped_requested (t_light (step window scan st ev))"
    and "ped_crossing (t_light (step window scan st ev))" by simp_all
next
  assume "current_mode l = NORMAL \<and> ped_crossing l \<and> \<not> sint (ped_cycle_count l) < 5"
  then show "\<not> ped_requested (timer_callback l)" and "\<not> ped_crossing (timer_callback l)"
    by (simp_all add: timer_callback_def Let_def)
qed

theorem ped_flags_exclusive_step_witness:
  "\<not> (ped_requested (t_light (loaded waiting_light :: 32 word module_state)) \<and>
       ped_crossing (t_light (loaded waiting_light :: 32 word module_state))) \<and>
   (Tick :: 32 word event) \<noteq> Ped_irq 0 \<and>
   ped_crossing (t_light (step 25 kernel_scan_u (loaded waiting_light :: 32 word module_state) Tick)) \<and>
   \<not> ped_requested (t_light (step 25 kernel_scan_u (loaded waiting_light :: 32 word module_state) Tick)) \<and>
   current_mode (t_light crossing_module) = NORMAL \<and>
   ped_crossing (t_light crossing_module) \<and>
   \<not> 1000 - ped_most_recent_interrupt crossing_module < 25 \<and>
   ped_requested (t_light (ped_interrupt_handler 25 1000 crossing_module)) \<and>
   ped_crossing (t_light (ped_interrupt_handler 25 1000 crossing_module)) \<and>
   sint (ped_cycle_count (t_light (ped_interrupt_handler 25 1000 crossing_module))) < 5 \<and>
   ped_requested (t_light (step 25 kernel_scan_u
      (ped_interrupt_handler 25 1000 crossing_module) Tick)) \<and>
   ped_crossing (t_light (step 25 kernel_scan_u
      (ped_interrupt_handler 25 1000 crossing_module) Tick)) \<and>
   current_mode ((fresh_light 5)\<lparr>ped_crossing := True\<rparr>) = NORMAL \<and>
   ped_crossing ((fresh_light 5)\<lparr>ped_crossing := True\<rparr>) \<and>
   \<not> sint (ped_cycle_count ((fresh_light 5)\<lparr>ped_crossing := True\<rparr>)) < 5 \<and>
   \<not> ped_requested (timer_callback ((fresh_light 5)\<lparr>ped_crossing := True\<rparr>)) \<and>
   \<not> ped_crossing (timer_callback ((fresh_light 5)\<lparr>ped_crossing := True\<rparr>))"
proof -
  have a: "\<not> (ped_requested (t_light (loaded waiting_light :: 32 word module_state)) \<and>
       ped_crossing (t_light (loaded waiting_light :: 32 word module_state)))"
    "ped_crossing (t_light (step 25 kernel_scan_u (loaded waiting_light :: 32 word module_state) Tick))"
    by code_simp+
  have b: "current_mode (t_light crossing_module) = NORMAL"
    "ped_crossing (t_light crossing_module)"
    "\<not> 1000 - ped_most_recent_interrupt crossing_module < 25"
    by code_simp+
  have c: "current_mode ((fresh_light 5)\<lparr>ped_crossing := True\<rparr>) = NORMAL"
    "ped_crossing ((fresh_light 5)\<lparr>ped_crossing := True\<rparr>)"
    "\<not> sint (ped_cycle_count ((fresh_light 5)\<lparr>ped_crossing := True\<rparr>)) < 5"
    by code_simp+
  have d: "(Tick :: 32 word event) \<noteq> Ped_irq 0" by simp
  have e: "sint (ped_cycle_count (t_light (ped_interrupt_handler 25 1000 crossing_module))) < 5"
    by code_simp
  have p: "ped_requested (t_light (ped_interrupt_handler 25 1000 crossing_module)) \<and>
           ped_crossing (t_light (ped_interrupt_handler 25 1000 crossing_module))"
    using ped_flags_exclusive_step [where st = crossing_module and jiffies = 1000
        and window = 25] b by blast
  have q: "ped_requested (t_light (step 25 kernel_scan_u
             (ped_interrupt_handler 25 1000 crossing_module) Tick)) \<and>
           ped_crossing (t_light (step 25 kernel_scan_u
             (ped_interrupt_handler 25 1000 crossing_module) Tick))"
    using ped_flags_exclusive_step [where st = "ped_interrupt_handler 25 1000 crossing_module"
        and ev = Tick and window = 25 and scan = kernel_scan_u] p e by blast
  have r: "\<not> ped_requested (t_light (step 25 kernel_scan_u
             (loaded waiting_light :: 32 word module_state) Tick))"
    using ped_flags_exclusive_step [where st = "loaded waiting_light :: 32 word module_state"
        and ev = Tick and window = 25 and scan = kernel_scan_u] a d by blast
  have s: "\<not> ped_requested (timer_callback ((fresh_light 5)\<lparr>ped_crossing := True\<rparr>)) \<and>
           \<not> ped_crossing (timer_callback ((fresh_light 5)\<lparr>ped_crossing := True\<rparr>))"
    using ped_flags_exclusive_step [where l = "(fresh_light 5)\<lparr>ped_crossing := True\<rparr>"] c
    by blast
  show ?thesis
    using a b c d e p q r s by blast
qed

text \<open>
  The claim as stated fails: a request, four ticks (the fourth starts the crossing),
  a second press 1000 jiffies later, and both flags are true; they still are two ticks
  later.
\<close>

theorem ped_flags_both_true_counterexample:
  "mytraffic_init (kernel_grants (stale_memory 0)) = Inr (fresh_light 0) \<and>
   ped_requested (t_light (run (25 :: 32 word) kernel_scan_u (loaded (fresh_light 0))
      [Ped_irq 1000, Tick, Tick, Tick, Tick, Ped_irq 2000, Tick, Tick])) \<and>
   ped_crossing (t_light (run (25 :: 32 word) kernel_scan_u (loaded (fresh_light 0))
      [Ped_irq 1000, Tick, Tick, Tick, Tick, Ped_irq 2000, Tick, Tick]))"
proof -
  have "ped_requested (t_light (run (25 :: 32 word) kernel_scan_u (loaded (fresh_light 0))
      [Ped_irq 1000, Tick, Tick, Tick, Tick, Ped_irq 2000, Tick, Tick]))"
   and "ped_crossing (t_light (run (25 :: 32 word) kernel_scan_u (loaded (fresh_light 0))
      [Ped_irq 1000, Tick, Tick, Tick, Tick, Ped_irq 2000, Tick, Tick]))"
    by code_simp+
  then show ?thesis by (simp add: init_example)
qed

subsection \<open>The rate\<close>

lemma write_rate:
  "rate (snd (mytraffic_write scan l buf count)) =
     (if count < 16 \<and> count \<le> length buf
      then (case scan (c_string (take count buf @ [CHR 0x00])) of
              Some v \<Rightarrow> if 1 \<le> v \<and> v \<le> 9 then v else rate l
            | None \<Rightarrow> rate l)
      else rate l)"
  by (simp add: mytraffic_write_def Let_def split: option.splits)

lemma step_rate_range:
  fixes st :: "('j::len) word module_state"
  assumes "1 \<le> rate (t_light st) \<and> rate (t_light st) \<le> 9"
  shows "1 \<le> rate (t_light (step window scan st ev)) \<and> rate (t_light (step window scan st ev)) \<le> 9"
proof (cases ev)
  case Tick
  with assms show ?thesis by (simp add: timer_callback_def Let_def split: mode.splits)
next
  case (Write buf count)
  with assms show ?thesis by (simp add: write_rate split: option.splits)
qed (use assms in \<open>simp_all add: toggle_frame ped_frame\<close>)

text \<open>
  Whatever \<^verbatim>\<open>sscanf\<close> does, the rate is 1 after initialisation and between 1 and 9 in
  every reachable state; a write replaces it by the value \<^verbatim>\<open>sscanf\<close> stored when that
  lies between 1 and 9, and leaves it unchanged when the stored value is outside that
  range, when nothing was parsed and when the write fails.
\<close>

theorem reachable_rate_bounds:
  fixes window :: "('j::len) word"
  assumes "mytraffic_init env = Inr l"
  shows "rate l = 1 \<and>
         1 \<le> rate (t_light (run window scan (loaded l) evs)) \<and>
         rate (t_light (run window scan (loaded l) evs)) \<le> 9 \<and>
         rate (snd (mytraffic_write scan l0 buf count)) =
           (if count < 16 \<and> count \<le> length buf
            then (case scan (c_string (take count buf @ [CHR 0x00])) of
                    Some v \<Rightarrow> if 1 \<le> v \<and> v \<le> 9 then v else rate l0
                  | None \<Rightarrow> rate l0)
            else rate l0)"
proof -
  from mytraffic_init_Inr [OF assms] have r: "rate l = 1" by auto
  have "1 \<le> rate (t_light (run window scan (loaded l) evs)) \<and>
         rate (t_light (run window scan (loaded l) evs)) \<le> 9"
  proof (rule run_invariant)
    show "1 \<le> rate (t_light (loaded l :: 'j word module_state)) \<and>
          rate (t_light (loaded l :: 'j word module_state)) \<le> 9"
      by (simp add: loaded_def r)
  qed (rule step_rate_range)
  with r show ?thesis by (simp add: write_rate)
qed

theorem reachable_rate_bounds_witness:
  "mytraffic_init (kernel_grants (stale_memory 0)) = Inr (fresh_light 0) \<and>
   rate (fresh_light 0) = 1 \<and>
   rate (t_light (run (25 :: 32 word) kernel_scan_u (loaded (fresh_light 0))
     [Write ''5'' 1, Tick, Write ''10'' 2, Write ''0'' 1, Write ''abc'' 3])) = 5 \<and>
   (1 :: 32 word) \<le> 5 \<and> (5 :: 32 word) \<le> 9 \<and>
   rate (snd (mytraffic_write kernel_scan_u (fresh_light 0) ''7 '' 2)) = 7"
proof -
  have a: "rate (t_light (run (25 :: 32 word) kernel_scan_u (loaded (fresh_light 0))
     [Write ''5'' 1, Tick, Write ''10'' 2, Write ''0'' 1, Write ''abc'' 3])) = 5"
    "rate (snd (mytraffic_write kernel_scan_u (fresh_light 0) ''7 '' 2)) = 7"
    by code_simp+
  show ?thesis
    using reachable_rate_bounds [OF init_example [of 0], where window = "25 :: 32 word"
      and scan = kernel_scan_u
      and evs = "[Write ''5'' 1, Tick, Write ''10'' 2, Write ''0'' 1, Write ''abc'' 3]"
      and ?l0.0 = "fresh_light 0" and buf = "''7 ''" and count = 2] init_example [of 0] a
    by simp
qed

text \<open>
  The value compared with 1 and 9 is the \<^verbatim>\<open>unsigned int\<close> that \<^verbatim>\<open>sscanf\<close> stored, which
  for the kernel's conversion is the value of the digits modulo \<open>2 ^ 32\<close>.
\<close>

lemma kernel_scan_u_wraps: "kernel_scan_u ''4294967297'' = Some 1"
  by (simp add: kernel_scan_u_def is_digit_def is_space_def digits_value_def)

text \<open>
  Claim C6: the rate is in the range from 1 to 9 in every reachable state, 1 after the
  initialisation, replaced by a write only when the parsed value is in that range, and
  left unchanged by a write whose value is outside it or that does not parse. The range
  and the initial value hold (theorem \<open>reachable_rate_bounds\<close>). But a write of the ten
  bytes \<^verbatim>\<open>4294967297\<close>, a value outside the range, returns 10 and changes the rate: after
  a write of \<^verbatim>\<open>5\<close> has set the rate to 5, it sets the rate to 1.
\<close>

theorem wrapped_write_changes_rate:
  "digits_value ''4294967297'' = 4294967297 \<and>
   \<not> digits_value ''4294967297'' \<le> 9 \<and>
   rate (t_light (run (25 :: 32 word) kernel_scan_u (loaded (fresh_light 0))
          [Write ''5'' 1])) = 5 \<and>
   rate (t_light (run (25 :: 32 word) kernel_scan_u (loaded (fresh_light 0))
          [Write ''5'' 1, Write ''4294967297'' 10])) = 1 \<and>
   mytraffic_write kernel_scan_u ((fresh_light 0)\<lparr>rate := 5\<rparr>) ''4294967297'' 10 =
     (Inr 10, (fresh_light 0)\<lparr>rate := 1\<rparr>)"
proof -
  have d: "digits_value ''4294967297'' = 4294967297"
    by (simp add: digits_value_def)
  have s: "kernel_scan_u ''5'' = Some 5"
    by (simp add: kernel_scan_u_def is_digit_def is_space_def digits_value_def)
  have w: "mytraffic_write kernel_scan_u l ''5'' 1 = (Inr 1, l\<lparr>rate := 5\<rparr>)"
    "mytraffic_write kernel_scan_u l ''4294967297'' 10 = (Inr 10, l\<lparr>rate := 1\<rparr>)" for l
    by (simp_all add: mytraffic_write_def c_string_def s kernel_scan_u_wraps)
  show ?thesis
    by (simp add: d w run_def loaded_def del: One_nat_def)
qed

subsection \<open>The return value of a write\<close>

text \<open>
  Claim C8, as amended: a write of fewer than 16 bytes from a readable buffer returns
  \<open>count\<close>, whatever \<^verbatim>\<open>sscanf\<close> makes of the text (a value in range, out of range, or
  none); a write of 16 bytes or more returns \<^verbatim>\<open>-EINVAL\<close> and an unreadable buffer
  \<^verbatim>\<open>-EFAULT\<close>, both with the light unchanged.
\<close>

theorem write_return_value:
  "(count < 16 \<and> count \<le> length buf
      \<longrightarrow> fst (mytraffic_write scan l buf count) = Inr count) \<and>
   (16 \<le> count \<longrightarrow> mytraffic_write scan l buf count = (Inl EINVAL, l)) \<and>
   (count < 16 \<and> length buf < count
      \<longrightarrow> mytraffic_write scan l buf count = (Inl EFAULT, l))"
  by (simp add: mytraffic_write_def Let_def split: option.splits)

theorem write_return_value_witness:
  "(2::nat) < 16 \<and> 2 \<le> length ''10'' \<and>
   kernel_scan_u ''10'' = Some 10 \<and>
   mytraffic_write kernel_scan_u (fresh_light 0) ''10'' 2 = (Inr 2, fresh_light 0) \<and>
   (3::nat) < 16 \<and> 3 \<le> length ''abc'' \<and>
   kernel_scan_u ''abc'' = None \<and>
   mytraffic_write kernel_scan_u (fresh_light 0) ''abc'' 3 = (Inr 3, fresh_light 0) \<and>
   (16::nat) \<le> 20 \<and>
   mytraffic_write kernel_scan_u (fresh_light 0) ''5'' 20 = (Inl EINVAL, fresh_light 0) \<and>
   length ''5'' < 3 \<and>
   mytraffic_write kernel_scan_u (fresh_light 0) ''5'' 3 = (Inl EFAULT, fresh_light 0)"
proof -
  have a: "kernel_scan_u ''10'' = Some 10" "kernel_scan_u ''abc'' = None"
    by code_simp+
  have b: "snd (mytraffic_write kernel_scan_u (fresh_light 0) ''10'' 2) = fresh_light 0"
    "snd (mytraffic_write kernel_scan_u (fresh_light 0) ''abc'' 3) = fresh_light 0"
    by (simp_all add: mytraffic_write_def c_string_def a)
  show ?thesis
    using write_return_value [of 2 "''10''" kernel_scan_u "fresh_light 0"]
      write_return_value [of 3 "''abc''" kernel_scan_u "fresh_light 0"]
      write_return_value [of 20 "''5''" kernel_scan_u "fresh_light 0"]
      write_return_value [of 3 "''5''" kernel_scan_u "fresh_light 0"]
      a b
    by (simp add: prod_eq_iff)
qed

text \<open>
  The claim as stated says every write returns its count. A write of 16 bytes, the rate
  5 followed by blanks, returns \<^verbatim>\<open>-EINVAL\<close>.
\<close>

theorem write_too_long_counterexample:
  "fst (mytraffic_write kernel_scan_u (fresh_light 0) ''5               '' 16) = Inl EINVAL \<and>
   fst (mytraffic_write kernel_scan_u (fresh_light 0) ''5               '' 16) \<noteq> Inr 16"
  by (simp add: mytraffic_write_def)

subsection \<open>The status report\<close>

text \<open>The report never fills the 256-byte buffer, so no \<^verbatim>\<open>snprintf\<close> truncates.\<close>

lemma decimal_length: "0 < k \<Longrightarrow> n < 10 ^ k \<Longrightarrow> length (decimal n) \<le> k"
proof (induction k arbitrary: n)
  case 0
  then show ?case by simp
next
  case (Suc k)
  show ?case
  proof (cases "n < 10")
    case True
    then show ?thesis by (simp add: decimal.simps)
  next
    case False
    with Suc.prems have k: "0 < k" by (cases k) auto
    from Suc.prems have "n div 10 < 10 ^ k" by (simp add: less_mult_imp_div_less mult.commute)
    from Suc.IH [OF k this] False show ?thesis
      by (subst decimal.simps) simp
  qed
qed

lemma decimal_rate_length: "length (decimal (unat (r :: 32 word))) \<le> 10"
proof -
  have "unat r < 2 ^ 32" using unsigned_less [of r] by simp
  then have "unat r < 10 ^ 10" by simp
  then show ?thesis by (intro decimal_length) simp_all
qed

lemma status_text_length:
  "snd (status_text l) \<le> 111 \<and> length (fst (status_text l)) = snd (status_text l)"
  using decimal_rate_length [of "rate l"]
  by (simp add: status_text_def snprintf_at_def Let_def)

lemma decimal_1: "decimal (Suc 0) = ''1''"
  by code_simp

lemma init_status_text:
  assumes "mytraffic_init env = Inr l"
  shows "status_text l =
    (''Mode: normal\<newline>Cycle Rate: 1 Hz\<newline>Lights: red off, yellow off, green on\<newline>Pedestrian: not present\<newline>'', 92)"
proof -
  from mytraffic_init_Inr [OF assms] have
    "current_mode l = NORMAL" "rate l = 1" "\<not> red_active l" "\<not> yellow_active l"
    "green_active l" "\<not> ped_requested l" "\<not> ped_crossing l"
    by auto
  then show ?thesis
    by (simp add: status_text_def snprintf_at_def decimal_1)
qed

text \<open>
  Claim C9: the report of a freshly initialised light is the text below (92 bytes); a
  read at offset 0 with room for at least 92 bytes returns exactly it; and a read leaves
  the module's state as it is.
\<close>

theorem status_after_init:
  fixes st :: "('j::len) word module_state"
  assumes "mytraffic_init env = Inr l"
  shows "fst (status_text l) =
           ''Mode: normal\<newline>Cycle Rate: 1 Hz\<newline>Lights: red off, yellow off, green on\<newline>Pedestrian: not present\<newline>'' \<and>
         (92 \<le> count \<and> 92 \<le> ubuf \<longrightarrow>
            mytraffic_read l ubuf count 0 =
              Inr (92, ''Mode: normal\<newline>Cycle Rate: 1 Hz\<newline>Lights: red off, yellow off, green on\<newline>Pedestrian: not present\<newline>'', 92)) \<and>
         step window scan st (Read ubuf count f_pos) = st"
  by (simp add: init_status_text [OF assms] mytraffic_read_def)

theorem status_after_init_witness:
  "mytraffic_init (kernel_grants (stale_memory 7)) = Inr (fresh_light 7) \<and>
   (92::nat) \<le> 4096 \<and>
   mytraffic_read (fresh_light 7) 4096 4096 0 =
     Inr (92, ''Mode: normal\<newline>Cycle Rate: 1 Hz\<newline>Lights: red off, yellow off, green on\<newline>Pedestrian: not present\<newline>'', 92) \<and>
   step (25 :: 32 word) kernel_scan_u (loaded (fresh_light 7)) (Read 4096 4096 0) =
     loaded (fresh_light 7)"
  using status_after_init [OF init_example [of 7], of 4096 4096 25 kernel_scan_u
      "loaded (fresh_light 7)" 0] init_example [of 7]
  by simp

subsection \<open>The mode toggle\<close>

text \<open>
  Claim C10: a toggle interrupt that passes the debounce test changes only the mode, one
  step in the order Normal, FlashingRed, FlashingYellow, Normal, and \<^verbatim>\<open>cycle_count\<close>,
  which becomes 0. The pedestrian flags and counter, the rate and the outputs stay as
  they are, so a crossing in progress is not cancelled.
\<close>

theorem toggle_accepted_frame:
  fixes st :: "('j::len) word module_state"
  assumes "\<not> jiffies - toggle_most_recent_interrupt st < window"
  shows "t_light (toggle_interrupt_handler window jiffies st) =
          (t_light st)\<lparr>current_mode :=
                         (case current_mode (t_light st) of
                            NORMAL \<Rightarrow> FLASHING_RED
                          | FLASHING_RED \<Rightarrow> FLASHING_YELLOW
                          | FLASHING_YELLOW \<Rightarrow> NORMAL),
                       cycle_count := 0\<rparr> \<and>
         ped_requested (t_light (toggle_interrupt_handler window jiffies st)) = ped_requested (t_light st) \<and>
         ped_crossing (t_light (toggle_interrupt_handler window jiffies st)) = ped_crossing (t_light st) \<and>
         ped_cycle_count (t_light (toggle_interrupt_handler window jiffies st)) = ped_cycle_count (t_light st) \<and>
         rate (t_light (toggle_interrupt_handler window jiffies st)) = rate (t_light st) \<and>
         gpio_values (t_light (toggle_interrupt_handler window jiffies st)) = gpio_values (t_light st)"
  using assms
  by (simp add: toggle_interrupt_handler_def Let_def gpio_values_def split: mode.splits)

theorem toggle_accepted_frame_witness:
  "\<not> 1000 - toggle_most_recent_interrupt crossing_module < 25 \<and>
   current_mode (t_light crossing_module) = NORMAL \<and>
   current_mode (t_light (toggle_interrupt_handler 25 1000 crossing_module)) = FLASHING_RED \<and>
   cycle_count (t_light (toggle_interrupt_handler 25 1000 crossing_module)) = 0 \<and>
   ped_crossing (t_light (toggle_interrupt_handler 25 1000 crossing_module)) \<and>
   ped_cycle_count (t_light (toggle_interrupt_handler 25 1000 crossing_module)) = 2 \<and>
   gpio_values (t_light (toggle_interrupt_handler 25 1000 crossing_module)) = (True, True, False)"
proof -
  have a: "\<not> 1000 - toggle_most_recent_interrupt crossing_module < 25"
    by code_simp
  have b: "current_mode (t_light crossing_module) = NORMAL"
    "ped_crossing (t_light crossing_module)"
    "ped_cycle_count (t_light crossing_module) = 2"
    "gpio_values (t_light crossing_module) = (True, True, False)"
    by code_simp+
  show ?thesis
    using toggle_accepted_frame [OF a] a b by (simp add: gpio_values_def)
qed

end
